theory Spec2Isabelle
  imports Complex_Main
begin

section \<open>Python strings and \<open>pathlib\<close> paths\<close>

text \<open>
  \<open>nobrainer/validate.py\<close> derives its output names with \<open>pathlib\<close>.  The functions
  below follow \<open>PurePosixPath\<close> (CPython 3.4 to 3.12) for a path built from one string:
  \<open>Path(s)\<close>, \<open>.name\<close>, \<open>.stem\<close>, \<open>.suffixes\<close>, \<open>.parent\<close>, \<open>path / str\<close> and
  \<open>str(path)\<close>.
\<close>

text \<open>\<open>s.split(c)\<close> for a one-character separator: \<open>'a..b'.split('.') = ['a', '', 'b']\<close>.\<close>

fun split_on :: "char \<Rightarrow> string \<Rightarrow> string list" where
  "split_on c [] = [[]]"
| "split_on c (x # xs) =
     (if x = c then [] # split_on c xs
      else (case split_on c xs of
              [] \<Rightarrow> [[x]]
            | w # ws \<Rightarrow> (x # w) # ws))"

text \<open>\<open>sep.join(xs)\<close>.\<close>

fun str_join :: "string \<Rightarrow> string list \<Rightarrow> string" where
  "str_join sep [] = []"
| "str_join sep [x] = x"
| "str_join sep (x # y # ys) = x @ sep @ str_join sep (y # ys)"

text \<open>\<open>s.rfind(c)\<close>: the index of the last occurrence of \<open>c\<close>, or \<open>-1\<close>.\<close>

definition rfind :: "char \<Rightarrow> string \<Rightarrow> int" where
  "rfind c s =
     (if c \<in> set s then int (length s) - 1 - int (length (takeWhile (\<lambda>x. x \<noteq> c) (rev s)))
      else - 1)"

text \<open>\<open>s.lstrip(c)\<close> and \<open>s.endswith(t)\<close>.\<close>

definition lstrip :: "char \<Rightarrow> string \<Rightarrow> string" where
  "lstrip c s = dropWhile (\<lambda>x. x = c) s"

definition endswith :: "string \<Rightarrow> string \<Rightarrow> bool" where
  "endswith s t = (length t \<le> length s \<and> drop (length s - length t) s = t)"

text \<open>
  A parsed path: the root (\<open>''\<close>, \<open>'/'\<close> or \<open>'//'\<close>) and the components after it.
\<close>

record posix_path =
  p_root :: string
  p_parts :: "string list"

text \<open>
  \<open>Path(s)\<close>: \<open>splitroot\<close> takes the leading slashes (exactly two of them are kept as
  \<open>'//'\<close>), the rest is split at \<open>'/'\<close> and the empty and \<open>'.'\<close> components are dropped.
\<close>

definition Path :: "string \<Rightarrow> posix_path" where
  "Path s =
     (let stripped = lstrip CHR ''/'' s;
          rt = (if s \<noteq> [] \<and> hd s = CHR ''/''
                then (if length s - length stripped = 2 then ''//'' else ''/'')
                else '''');
          rel = (if s \<noteq> [] \<and> hd s = CHR ''/'' then stripped else s)
      in \<lparr>p_root = rt,
          p_parts = filter (\<lambda>x. x \<noteq> [] \<and> x \<noteq> ''.'') (split_on CHR ''/'' rel)\<rparr>)"

text \<open>\<open>str(path)\<close>: the root followed by the components joined with \<open>'/'\<close>, or \<open>'.'\<close>.\<close>

definition path_str :: "posix_path \<Rightarrow> string" where
  "path_str p =
     (let s = p_root p @ str_join ''/'' (p_parts p) in if s = [] then ''.'' else s)"

text \<open>\<open>path.name\<close>: the last component, or the empty string.\<close>

definition path_name :: "posix_path \<Rightarrow> string" where
  "path_name p = (if p_parts p = [] then [] else last (p_parts p))"

text \<open>\<open>path.parent\<close>: the path without its last component; a path without components
  is its own parent.\<close>

definition path_parent :: "posix_path \<Rightarrow> posix_path" where
  "path_parent p = (if p_parts p = [] then p else p\<lparr>p_parts := butlast (p_parts p)\<rparr>)"

text \<open>
  \<open>path.stem\<close>:
  \<^verbatim>\<open>i = name.rfind('.'); return name[:i] if 0 < i < len(name) - 1 else name\<close>
\<close>

definition path_stem :: "posix_path \<Rightarrow> string" where
  "path_stem p =
     (let name = path_name p; i = rfind CHR ''.'' name
      in if 0 < i \<and> i < int (length name) - 1 then take (nat i) name else name)"

text \<open>
  \<open>path.suffixes\<close>:
  \<^verbatim>\<open>if name.endswith('.'): return []
  name = name.lstrip('.')
  return ['.' + suffix for suffix in name.split('.')[1:]]\<close>
\<close>

definition path_suffixes :: "posix_path \<Rightarrow> string list" where
  "path_suffixes p =
     (let name = path_name p
      in if endswith name ''.'' then []
         else map (\<lambda>suffix. CHR ''.'' # suffix) (tl (split_on CHR ''.'' (lstrip CHR ''.'' name))))"

text \<open>\<open>path / s\<close>: an absolute right operand replaces the left one, a relative one is
  appended.\<close>

definition truediv :: "posix_path \<Rightarrow> string \<Rightarrow> posix_path" where
  "truediv p s =
     (let q = Path s
      in if p_root q \<noteq> [] then q
         else \<lparr>p_root = p_root p, p_parts = p_parts p @ p_parts q\<rparr>)"

text \<open>The text that \<open>str\<close> puts in front of a component appended to \<open>d\<close>.\<close>

definition dir_prefix :: "posix_path \<Rightarrow> string" where
  "dir_prefix d =
     (if p_parts d = [] then p_root d else p_root d @ str_join ''/'' (p_parts d) @ ''/'')"

section \<open>Output path derivation of the batch validator\<close>

text \<open>
  Lines 136 to 141 of \<open>validate_from_filepaths\<close>:
  \<^verbatim>\<open>outpath = Path(filepath[0])
  suffixes = '.'.join(s for s in outpath.suffixes)
  meanPath = outpath.parent / (outpath.stem + '_mean.' + suffixes)
  variancePath = outpath.parent / (outpath.stem + '_variance.' + suffixes)
  entropyPath = outpath.parent / (outpath.stem + '_entropy.' + suffixes)
  dicePath = outpath.parent / (outpath.stem + '_dice.npy')\<close>
\<close>

definition joined_suffixes :: "posix_path \<Rightarrow> string" where
  "joined_suffixes outpath = str_join ''.'' (path_suffixes outpath)"

definition meanPath :: "string \<Rightarrow> posix_path" where
  "meanPath f0 =
     (let outpath = Path f0
      in truediv (path_parent outpath) (path_stem outpath @ ''_mean.'' @ joined_suffixes outpath))"

definition variancePath :: "string \<Rightarrow> posix_path" where
  "variancePath f0 =
     (let outpath = Path f0
      in truediv (path_parent outpath)
           (path_stem outpath @ ''_variance.'' @ joined_suffixes outpath))"

definition entropyPath :: "string \<Rightarrow> posix_path" where
  "entropyPath f0 =
     (let outpath = Path f0
      in truediv (path_parent outpath)
           (path_stem outpath @ ''_entropy.'' @ joined_suffixes outpath))"

definition dicePath :: "string \<Rightarrow> posix_path" where
  "dicePath f0 =
     (let outpath = Path f0
      in truediv (path_parent outpath) (path_stem outpath @ ''_dice.npy''))"

section \<open>Python values, exceptions and the file system\<close>

text \<open>The exceptions the two validators can raise or let through.\<close>

datatype pyerr =
  TypeError
| IndexError
| ValueError
| FileNotFoundError string
| ImageFileError
| UnboundLocalError string
| Exception string
| CollaboratorError string

text \<open>
  The \<open>filepath\<close> argument.  The docstring asks for a tuple of two paths; a plain string
  is the other value the code can be handed.  \<open>filepath[i]\<close> on a tuple is its \<open>i\<close>-th
  item, on a string the one-character string at \<open>i\<close>; both raise \<open>IndexError\<close> out of
  range.
\<close>

datatype pyarg = PyStr string | PyTuple "string list"

definition tuple_getitem :: "'a list \<Rightarrow> nat \<Rightarrow> pyerr + 'a" where
  "tuple_getitem xs i = (if i < length xs then Inr (xs ! i) else Inl IndexError)"

fun getitem :: "pyarg \<Rightarrow> nat \<Rightarrow> pyerr + string" where
  "getitem (PyStr s) i = (if i < length s then Inr [s ! i] else Inl IndexError)"
| "getitem (PyTuple xs) i = tuple_getitem xs i"

text \<open>
  \<open>Path(filepath)\<close>: \<open>pathlib\<close> accepts a string (or a path-like object) and raises
  \<open>TypeError\<close> for any other argument, a tuple included.
\<close>

fun Path_of :: "pyarg \<Rightarrow> pyerr + posix_path" where
  "Path_of (PyStr s) = Inr (Path s)"
| "Path_of (PyTuple xs) = Inl TypeError"

text \<open>
  The file system maps the text of a path to the content of the regular file there; two
  different texts are taken to name two different files.  Everything observable that the
  batch validator does is appended to \<open>trace\<close>: \<open>nib.save\<close>, \<open>np.save\<close> and the two
  \<open>print\<close> calls.
\<close>

datatype 'v content = Image 'v | NpyArray "real list" | Other string

datatype 'v event =
  NibSave string 'v
| NpSave string "real list"
| Print string
| PrintDice real

record 'v world =
  files :: "string \<rightharpoonup> 'v content"
  trace :: "'v event list"

definition is_file :: "'v world \<Rightarrow> posix_path \<Rightarrow> bool" where
  "is_file w p = (files w (path_str p) \<noteq> None)"

text \<open>\<open>nib.load(path)\<close>: the image stored at the path.\<close>

definition nib_load :: "'v world \<Rightarrow> string \<Rightarrow> pyerr + 'v" where
  "nib_load w path =
     (case files w path of
        None \<Rightarrow> Inl (FileNotFoundError path)
      | Some (Image v) \<Rightarrow> Inr v
      | Some _ \<Rightarrow> Inl ImageFileError)"

text \<open>\<open>nib.save(img, path)\<close>: the image is written at the path, over what was there.  The
  write itself is taken to succeed.\<close>

definition nib_save :: "'v \<Rightarrow> string \<Rightarrow> 'v world \<Rightarrow> 'v world" where
  "nib_save img path w =
     w\<lparr>files := (files w)(path \<mapsto> Image img), trace := trace w @ [NibSave path img]\<rparr>"

text \<open>\<open>np.save(path, arr)\<close>: appends \<open>.npy\<close> to a name that does not end with it.\<close>

definition np_save :: "string \<Rightarrow> real list \<Rightarrow> 'v world \<Rightarrow> 'v world" where
  "np_save path arr w =
     (let file = (if endswith path ''.npy'' then path else path @ ''.npy'')
      in w\<lparr>files := (files w)(file \<mapsto> NpyArray arr), trace := trace w @ [NpSave file arr]\<rparr>)"

definition print :: "string \<Rightarrow> 'v world \<Rightarrow> 'v world" where
  "print s w = w\<lparr>trace := trace w @ [Print s]\<rparr>"

text \<open>\<open>print('Dice: ' + str(m))\<close> for a number \<open>m\<close>.\<close>

definition print_dice :: "real \<Rightarrow> 'v world \<Rightarrow> 'v world" where
  "print_dice m w = w\<lparr>trace := trace w @ [PrintDice m]\<rparr>"

text \<open>\<open>np.zeros(n)\<close>: a vector of \<open>n\<close> zeros; a negative \<open>n\<close> raises \<open>ValueError\<close>.\<close>

definition np_zeros :: "int \<Rightarrow> pyerr + real list" where
  "np_zeros n = (if n < 0 then Inl ValueError else Inr (replicate (nat n) 0))"

text \<open>\<open>range(n)\<close> is empty for \<open>n \<le> 0\<close>.\<close>

definition py_range :: "int \<Rightarrow> nat list" where
  "py_range n = [0 ..< nat n]"

text \<open>Sequencing of calls that may raise: the first exception ends the computation.\<close>

definition and_then :: "'e + 'a \<Rightarrow> ('a \<Rightarrow> 'e + 'b) \<Rightarrow> 'e + 'b" where
  "and_then m f = (case m of Inl e \<Rightarrow> Inl e | Inr x \<Rightarrow> f x)"

section \<open>Collaborators and arguments\<close>

text \<open>
  The functions imported from other modules are parameters of the model: the predictor
  adapter \<open>_predict\<close>, the label mapping reader \<open>read_mapping\<close> (it reads a file), the
  remapper \<open>replace\<close>, \<open>np.equal\<close>, the metric \<open>dice_numpy\<close> and \<open>np.mean\<close>.
  \<open>_predict\<close>, \<open>read_mapping\<close>, \<open>replace\<close> and \<open>dice_numpy\<close> may raise; \<open>_predict\<close>
  returns the tuple of its outputs.
\<close>

record ('v, 'mp, 'mask, 'p) collab =
  predict :: "'v \<Rightarrow> 'p \<Rightarrow> bool \<Rightarrow> bool \<Rightarrow> bool \<Rightarrow> int \<Rightarrow> pyerr + 'v list"
  read_mapping :: "(string \<rightharpoonup> 'v content) \<Rightarrow> string \<Rightarrow> pyerr + 'mp"
  replace :: "'v \<Rightarrow> 'mp \<Rightarrow> pyerr + 'v"
  np_equal :: "'v \<Rightarrow> int \<Rightarrow> 'mask"
  dice_numpy :: "'mask \<Rightarrow> 'mask \<Rightarrow> pyerr + real"
  np_mean :: "real list \<Rightarrow> real"

text \<open>
  The keyword arguments shared by the two validators.  \<open>predictor\<close> stands for the values
  that are only handed on to \<open>_predict\<close>: the predictor, the block shape, the normalizer
  and the batch size.
\<close>

record 'p vargs =
  predictor :: 'p
  n_classes :: int
  mapping_y :: string
  returnVariance :: bool
  returnEntropy :: bool
  returnArrayFromImages :: bool
  n_samples :: int

section \<open>The single-volume validator\<close>

text \<open>
  The loop of lines 76 to 79:
  \<^verbatim>\<open>for i in range(n_classes):
      u = np.equal(prediction_image,i)
      v = np.equal(y,i)
      dice[i]= dice_numpy(u,v)\<close>
\<close>

fun dice_loop ::
  "('v, 'mp, 'mask, 'p) collab \<Rightarrow> 'v \<Rightarrow> 'v \<Rightarrow> nat list \<Rightarrow> real list \<Rightarrow> pyerr + real list" where
  "dice_loop c prediction_image y [] dice = Inr dice"
| "dice_loop c prediction_image y (i # rest) dice =
     (let u = np_equal c prediction_image (int i);
          v = np_equal c y (int i)
      in and_then (dice_numpy c u v)
           (\<lambda>d. dice_loop c prediction_image y rest (dice[i := d])))"

text \<open>
  \<open>validate_from_filepath\<close>, lines 57 to 81.  It reads the file system and changes
  nothing.
\<close>

definition validate_from_filepath ::
  "('v, 'mp, 'mask, 'p) collab \<Rightarrow> 'p vargs \<Rightarrow> 'v world \<Rightarrow> pyarg \<Rightarrow> pyerr + ('v list \<times> real list)" where
  "validate_from_filepath c a w filepath =
     and_then (Path_of filepath) (\<lambda>p.
       if \<not> is_file w p then
         and_then (getitem filepath 0) (\<lambda>f0.
           Inl (FileNotFoundError (''could not find file '' @ f0)))
       else
         and_then (getitem filepath 0) (\<lambda>f0.
         and_then (nib_load w f0) (\<lambda>img.
         and_then (getitem filepath 1) (\<lambda>f1.
         and_then (nib_load w f1) (\<lambda>y.
         and_then (predict c img (predictor a) (returnVariance a) (returnEntropy a)
                     (returnArrayFromImages a) (n_samples a)) (\<lambda>outputs.
         and_then (tuple_getitem outputs 0) (\<lambda>prediction_image.
         and_then (read_mapping c (files w) (mapping_y a)) (\<lambda>mp.
         and_then (replace c y mp) (\<lambda>y'.
         and_then (np_zeros (n_classes a)) (\<lambda>dice0.
         and_then (dice_loop c prediction_image y' (py_range (n_classes a)) dice0) (\<lambda>dice.
           Inr (outputs, dice))))))))))))"

section \<open>The batch validator\<close>

text \<open>
  The names that are bound in the loop body and read after the loop: \<open>filepath\<close>,
  \<open>dice\<close> and \<open>dicePath\<close>.
\<close>

type_synonym loop_vars = "pyarg \<times> real list \<times> posix_path"

text \<open>The message of the exception of line 143.\<close>

definition exists_message :: "string \<Rightarrow> string" where
  "exists_message f0 =
     path_str (meanPath f0) @ '' or '' @ path_str (variancePath f0) @ '' or ''
       @ path_str (entropyPath f0) @ '' already exists.''"

text \<open>
  Lines 146 to 155, entered when \<open>returnArrayFromImages\<close> is false:
  \<^verbatim>\<open>includeVariance = ((n_samples > 1) and (returnVariance))
  if includeVariance and returnEntropy:
      nib.save(outputs[1], str(variancePath))
      nib.save(outputs[2], str(entropyPath))
  elif includeVariance:
      nib.save(outputs[1], str(variancePath))
  else:
      nib.save(outputs[1], str(entropyPath))\<close>
  An exception leaves the file system as it is at that moment.
\<close>

definition save_secondary ::
  "'p vargs \<Rightarrow> 'v list \<Rightarrow> string \<Rightarrow> 'v world \<Rightarrow> (pyerr + unit) \<times> 'v world" where
  "save_secondary a outputs f0 w =
     (let includeVariance = (n_samples a > 1 \<and> returnVariance a)
      in if includeVariance \<and> returnEntropy a then
           (case tuple_getitem outputs 1 of
              Inl e \<Rightarrow> (Inl e, w)
            | Inr o1 \<Rightarrow>
                (let w1 = nib_save o1 (path_str (variancePath f0)) w
                 in case tuple_getitem outputs 2 of
                      Inl e \<Rightarrow> (Inl e, w1)
                    | Inr o2 \<Rightarrow> (Inr (), nib_save o2 (path_str (entropyPath f0)) w1)))
         else if includeVariance then
           (case tuple_getitem outputs 1 of
              Inl e \<Rightarrow> (Inl e, w)
            | Inr o1 \<Rightarrow> (Inr (), nib_save o1 (path_str (variancePath f0)) w))
         else
           (case tuple_getitem outputs 1 of
              Inl e \<Rightarrow> (Inl e, w)
            | Inr o1 \<Rightarrow> (Inr (), nib_save o1 (path_str (entropyPath f0)) w)))"

text \<open>
  One iteration of the loop, lines 121 to 155.  It returns the loop-scoped names it has
  bound, or the exception, and the file system it leaves.
\<close>

definition batch_step ::
  "('v, 'mp, 'mask, 'p) collab \<Rightarrow> 'p vargs \<Rightarrow> 'v world \<Rightarrow> pyarg
     \<Rightarrow> (pyerr + loop_vars) \<times> 'v world" where
  "batch_step c a w filepath =
     (case validate_from_filepath c a w filepath of
        Inl e \<Rightarrow> (Inl e, w)
      | Inr (outputs, dice) \<Rightarrow>
          (case getitem filepath 0 of
             Inl e \<Rightarrow> (Inl e, w)
           | Inr f0 \<Rightarrow>
               if is_file w (meanPath f0) \<or> is_file w (variancePath f0)
                    \<or> is_file w (entropyPath f0)
               then (Inl (Exception (exists_message f0)), w)
               else
                 (case tuple_getitem outputs 0 of
                    Inl e \<Rightarrow> (Inl e, w)
                  | Inr o0 \<Rightarrow>
                      (let w1 = nib_save o0 (path_str (meanPath f0)) w
                       in if \<not> returnArrayFromImages a then
                            (case save_secondary a outputs f0 w1 of
                               (Inl e, w2) \<Rightarrow> (Inl e, w2)
                             | (Inr u, w2) \<Rightarrow> (Inr (filepath, dice, dicePath f0), w2))
                          else (Inr (filepath, dice, dicePath f0), w1)))))"

text \<open>
  The loop of line 119.  \<open>vars\<close> holds the loop-scoped names: \<open>None\<close> until the first
  iteration has bound them, then those of the latest iteration.
\<close>

fun batch_loop ::
  "('v, 'mp, 'mask, 'p) collab \<Rightarrow> 'p vargs \<Rightarrow> 'v world \<Rightarrow> pyarg list \<Rightarrow> loop_vars option
     \<Rightarrow> (pyerr + loop_vars option) \<times> 'v world" where
  "batch_loop c a w [] vars = (Inr vars, w)"
| "batch_loop c a w (filepath # rest) vars =
     (case batch_step c a w filepath of
        (Inl e, w') \<Rightarrow> (Inl e, w')
      | (Inr vars', w') \<Rightarrow> batch_loop c a w' rest (Some vars'))"

text \<open>
  Lines 157 to 159, after the loop:
  \<^verbatim>\<open>print(filepath[0])
  print('Dice: ' + str(np.mean(dice)))
  np.save(dicePath,dice)\<close>
  Reading \<open>filepath\<close> when no iteration has bound it raises \<open>UnboundLocalError\<close>.
\<close>

definition final_actions ::
  "('v, 'mp, 'mask, 'p) collab \<Rightarrow> loop_vars option \<Rightarrow> 'v world \<Rightarrow> (pyerr + unit) \<times> 'v world" where
  "final_actions c vars w =
     (case vars of
        None \<Rightarrow> (Inl (UnboundLocalError ''filepath''), w)
      | Some (filepath, dice, dice_path) \<Rightarrow>
          (case getitem filepath 0 of
             Inl e \<Rightarrow> (Inl e, w)
           | Inr f0 \<Rightarrow>
               (let w1 = print f0 w;
                    w2 = print_dice (np_mean c dice) w1
                in (Inr (), np_save (path_str dice_path) dice w2))))"

definition validate_from_filepaths ::
  "('v, 'mp, 'mask, 'p) collab \<Rightarrow> 'p vargs \<Rightarrow> 'v world \<Rightarrow> pyarg list
     \<Rightarrow> (pyerr + unit) \<times> 'v world" where
  "validate_from_filepaths c a w filepaths =
     (case batch_loop c a w filepaths None of
        (Inl e, w') \<Rightarrow> (Inl e, w')
      | (Inr vars, w') \<Rightarrow> final_actions c vars w')"

section \<open>A run on concrete files\<close>

text \<open>
  Collaborators for running the model: volumes are lists of labels, a mask marks the
  positions that hold a label, the mapping replaces labels, the metric scores \<open>1\<close> for
  equal masks and \<open>0\<close> otherwise, and the predictor returns the mean followed by as many
  further volumes as \<open>extras\<close> says.
\<close>

definition demo_collab :: "nat \<Rightarrow> (int list, (int \<times> int) list, bool list, unit) collab" where
  "demo_collab extras =
     \<lparr>predict = (\<lambda>img p rv re ra n. Inr (replicate (Suc extras) img)),
      read_mapping = (\<lambda>fs path. Inr [(7, 1)]),
      replace = (\<lambda>y mp. Inr (map (\<lambda>x. case map_of mp x of None \<Rightarrow> x | Some t \<Rightarrow> t) y)),
      np_equal = (\<lambda>v i. map (\<lambda>x. x = i) v),
      dice_numpy = (\<lambda>u v. Inr (if u = v then 1 else 0)),
      np_mean = (\<lambda>xs. if xs = [] then 0 else sum_list xs / real (length xs))\<rparr>"

definition demo_args :: "bool \<Rightarrow> bool \<Rightarrow> int \<Rightarrow> unit vargs" where
  "demo_args rv re n =
     \<lparr>predictor = (), n_classes = 2, mapping_y = ''m.csv'', returnVariance = rv,
      returnEntropy = re, returnArrayFromImages = False, n_samples = n\<rparr>"

text \<open>
  Six files.  For the string \<open>'ab'\<close> as \<open>filepath\<close>, the existence check looks at
  \<open>ab\<close>, the volume is \<open>filepath[0] = 'a'\<close> and the ground truth is
  \<open>filepath[1] = 'b'\<close>; likewise for \<open>'cd'\<close>.
\<close>

definition demo_world :: "int list world" where
  "demo_world =
     \<lparr>files = [''ab'' \<mapsto> Other [], ''a'' \<mapsto> Image [0, 1, 1], ''b'' \<mapsto> Image [0, 7, 2],
              ''cd'' \<mapsto> Other [], ''c'' \<mapsto> Image [1, 1, 1], ''d'' \<mapsto> Image [7, 7, 7]],
      trace = []\<rparr>"

section \<open>Sequencing and the Dice loop\<close>

lemma and_then_Inr_iff: "(and_then m f = Inr y) = (\<exists>x. m = Inr x \<and> f x = Inr y)"
  by (cases m) (simp_all add: and_then_def)

lemma and_then_Inr [simp]: "and_then (Inr x) f = f x"
  by (simp add: and_then_def)

lemma and_then_Inl [simp]: "and_then (Inl e) f = Inl e"
  by (simp add: and_then_def)

lemma tuple_getitem_Inr_iff: "(tuple_getitem xs i = Inr x) = (i < length xs \<and> x = xs ! i)"
  by (auto simp: tuple_getitem_def)

lemma np_zeros_Inr_iff: "(np_zeros n = Inr d) = (0 \<le> n \<and> d = replicate (nat n) 0)"
  by (auto simp: np_zeros_def)

lemma dice_loop_result:
  "dice_loop c p y idxs d = Inr d' \<Longrightarrow>
     length d' = length d
     \<and> (\<forall>i \<in> set idxs. i < length d \<longrightarrow>
           dice_numpy c (np_equal c p (int i)) (np_equal c y (int i)) = Inr (d' ! i))
     \<and> (\<forall>j. j \<notin> set idxs \<longrightarrow> d' ! j = d ! j)"
proof (induction idxs arbitrary: d)
  case Nil
  then show ?case by simp
next
  case (Cons i rest)
  from Cons.prems obtain r where
    r: "dice_numpy c (np_equal c p (int i)) (np_equal c y (int i)) = Inr r" and
    run: "dice_loop c p y rest (d[i := r]) = Inr d'"
    by (auto simp: Let_def and_then_Inr_iff)
  from Cons.IH [OF run] have
    len: "length d' = length d" and
    done_rest: "\<forall>k \<in> set rest. k < length d \<longrightarrow>
      dice_numpy c (np_equal c p (int k)) (np_equal c y (int k)) = Inr (d' ! k)" and
    kept: "\<forall>j. j \<notin> set rest \<longrightarrow> d' ! j = d[i := r] ! j"
    by simp_all
  have here: "i < length d \<Longrightarrow>
      dice_numpy c (np_equal c p (int i)) (np_equal c y (int i)) = Inr (d' ! i)"
  proof (cases "i \<in> set rest")
    case True
    assume "i < length d"
    with True done_rest show ?thesis by blast
  next
    case False
    assume "i < length d"
    with False kept have "d' ! i = r" by simp
    with r show ?thesis by simp
  qed
  from kept have "\<forall>j. j \<notin> set (i # rest) \<longrightarrow> d' ! j = d ! j"
    by simp
  with len done_rest here show ?case by auto
qed

lemma dice_loop_bounds:
  assumes "\<forall>u v r. dice_numpy c u v = Inr r \<longrightarrow> 0 \<le> r \<and> r \<le> 1"
  shows "dice_loop c p y idxs d = Inr d' \<Longrightarrow> \<forall>x \<in> set d. 0 \<le> x \<and> x \<le> 1
           \<Longrightarrow> \<forall>x \<in> set d'. 0 \<le> x \<and> x \<le> 1"
proof (induction idxs arbitrary: d)
  case Nil
  then show ?case by simp
next
  case (Cons i rest)
  from Cons.prems(1) obtain r where
    r: "dice_numpy c (np_equal c p (int i)) (np_equal c y (int i)) = Inr r" and
    run: "dice_loop c p y rest (d[i := r]) = Inr d'"
    by (auto simp: Let_def and_then_Inr_iff)
  from assms r have "0 \<le> r \<and> r \<le> 1" by blast
  with Cons.prems(2) have "\<forall>x \<in> set (d[i := r]). 0 \<le> x \<and> x \<le> 1"
    using set_update_subset_insert [of d i r] by auto
  with Cons.IH [OF run] show ?case by blast
qed

text \<open>What a returning call of the single-volume validator has done, step by step.\<close>

lemma validate_from_filepath_returns:
  assumes "validate_from_filepath c a w filepath = Inr (outputs, dice)"
  shows "\<exists>p f0 f1 img y mp y'.
           Path_of filepath = Inr p \<and> is_file w p
           \<and> getitem filepath 0 = Inr f0 \<and> nib_load w f0 = Inr img
           \<and> getitem filepath 1 = Inr f1 \<and> nib_load w f1 = Inr y
           \<and> predict c img (predictor a) (returnVariance a) (returnEntropy a)
                (returnArrayFromImages a) (n_samples a) = Inr outputs
           \<and> outputs \<noteq> []
           \<and> read_mapping c (files w) (mapping_y a) = Inr mp
           \<and> replace c y mp = Inr y'
           \<and> 0 \<le> n_classes a
           \<and> dice_loop c (outputs ! 0) y' (py_range (n_classes a))
                (replicate (nat (n_classes a)) 0) = Inr dice"
proof -
  from assms obtain p where p: "Path_of filepath = Inr p" and
    rest: "(if \<not> is_file w p then
         and_then (getitem filepath 0) (\<lambda>f0.
           Inl (FileNotFoundError (''could not find file '' @ f0)))
       else
         and_then (getitem filepath 0) (\<lambda>f0.
         and_then (nib_load w f0) (\<lambda>img.
         and_then (getitem filepath 1) (\<lambda>f1.
         and_then (nib_load w f1) (\<lambda>y.
         and_then (predict c img (predictor a) (returnVariance a) (returnEntropy a)
                     (returnArrayFromImages a) (n_samples a)) (\<lambda>outputs.
         and_then (tuple_getitem outputs 0) (\<lambda>prediction_image.
         and_then (read_mapping c (files w) (mapping_y a)) (\<lambda>mp.
         and_then (replace c y mp) (\<lambda>y'.
         and_then (np_zeros (n_classes a)) (\<lambda>dice0.
         and_then (dice_loop c prediction_image y' (py_range (n_classes a)) dice0) (\<lambda>dice.
           Inr (outputs, dice)))))))))))) = Inr (outputs, dice)"
    unfolding validate_from_filepath_def and_then_Inr_iff [of "Path_of filepath"] by blast
  have isf: "is_file w p"
  proof (rule ccontr)
    assume "\<not> is_file w p"
    with rest show False by (simp add: and_then_Inr_iff)
  qed
  with rest show ?thesis
    using p by (simp add: and_then_Inr_iff tuple_getitem_Inr_iff np_zeros_Inr_iff) fastforce
qed

section \<open>Evaluating the concrete run\<close>

lemma py_range_2: "py_range 2 = [0, 1]"
  by (simp add: py_range_def upt_rec numeral_2_eq_2)

lemma demo_validate_ab_in:
  assumes "files w ''ab'' = Some (Other [])" "files w ''a'' = Some (Image [0, 1, 1])"
    "files w ''b'' = Some (Image [0, 7, 2])"
  shows "validate_from_filepath (demo_collab k) (demo_args rv re n) w (PyStr ''ab'')
     = Inr (replicate (Suc k) [0, 1, 1], [1, 0])"
  using assms
  by (simp add: validate_from_filepath_def demo_collab_def demo_args_def
        Path_def lstrip_def path_str_def is_file_def nib_load_def tuple_getitem_def
        np_zeros_def py_range_2 numeral_2_eq_2 Let_def)

lemma demo_validate_cd_in:
  assumes "files w ''cd'' = Some (Other [])" "files w ''c'' = Some (Image [1, 1, 1])"
    "files w ''d'' = Some (Image [7, 7, 7])"
  shows "validate_from_filepath (demo_collab k) (demo_args rv re n) w (PyStr ''cd'')
     = Inr (replicate (Suc k) [1, 1, 1], [1, 1])"
  using assms
  by (simp add: validate_from_filepath_def demo_collab_def demo_args_def
        Path_def lstrip_def path_str_def is_file_def nib_load_def tuple_getitem_def
        np_zeros_def py_range_2 numeral_2_eq_2 Let_def)

lemma demo_validate_ab:
  "validate_from_filepath (demo_collab k) (demo_args rv re n) demo_world (PyStr ''ab'')
     = Inr (replicate (Suc k) [0, 1, 1], [1, 0])"
  by (rule demo_validate_ab_in) (simp_all add: demo_world_def)

lemma demo_metric_contract:
  "\<forall>u v. \<exists>r. dice_numpy (demo_collab k) u v = Inr r \<and> 0 \<le> r \<and> r \<le> 1"
  by (simp add: demo_collab_def)

section \<open>Properties of the single-volume validator\<close>

text \<open>
  C1.  When \<open>validate_from_filepath\<close> returns, the ground truth loaded from
  \<open>filepath[1]\<close> has been remapped through the label mapping read from \<open>mapping_y\<close>, and
  for every class index \<open>i\<close> with \<open>0 \<le> i < n_classes\<close> the entry \<open>i\<close> of the Dice vector
  is the value of \<open>dice_numpy\<close> on the masks \<open>np.equal(outputs[0], i)\<close> and
  \<open>np.equal(remapped ground truth, i)\<close>.
\<close>

theorem dice_entries_are_class_overlaps:
  assumes "validate_from_filepath c a w filepath = Inr (outputs, dice)"
  shows "\<exists>f1 G mp G'.
           getitem filepath 1 = Inr f1 \<and> nib_load w f1 = Inr G
           \<and> read_mapping c (files w) (mapping_y a) = Inr mp
           \<and> replace c G mp = Inr G'
           \<and> outputs \<noteq> []
           \<and> (\<forall>i. 0 \<le> i \<and> i < n_classes a \<longrightarrow>
                 dice_numpy c (np_equal c (outputs ! 0) i) (np_equal c G' i)
                   = Inr (dice ! nat i))"
proof -
  from validate_from_filepath_returns [OF assms] obtain f1 G mp G' where
    f1: "getitem filepath 1 = Inr f1" and G: "nib_load w f1 = Inr G" and
    mp: "read_mapping c (files w) (mapping_y a) = Inr mp" and
    G': "replace c G mp = Inr G'" and ne: "outputs \<noteq> []" and
    run: "dice_loop c (outputs ! 0) G' (py_range (n_classes a))
            (replicate (nat (n_classes a)) 0) = Inr dice"
    by blast
  have "dice_numpy c (np_equal c (outputs ! 0) i) (np_equal c G' i) = Inr (dice ! nat i)"
    if i: "0 \<le> i \<and> i < n_classes a" for i
  proof -
    from i have "nat i \<in> set (py_range (n_classes a))" and "nat i < nat (n_classes a)"
      by (auto simp: py_range_def)
    moreover from dice_loop_result [OF run] have
      "\<forall>k \<in> set (py_range (n_classes a)). k < nat (n_classes a) \<longrightarrow>
         dice_numpy c (np_equal c (outputs ! 0) (int k)) (np_equal c G' (int k))
           = Inr (dice ! k)"
      by simp
    ultimately have
      "dice_numpy c (np_equal c (outputs ! 0) (int (nat i))) (np_equal c G' (int (nat i)))
         = Inr (dice ! nat i)"
      by blast
    moreover from i have "int (nat i) = i" by simp
    ultimately show ?thesis by simp
  qed
  with f1 G mp G' ne show ?thesis by blast
qed

theorem dice_entries_are_class_overlaps_witness:
  "validate_from_filepath (demo_collab 1) (demo_args False False 1) demo_world (PyStr ''ab'')
     = Inr ([[0, 1, 1], [0, 1, 1]], [1, 0])
   \<and> (\<exists>G'. replace (demo_collab 1) [0, 7, 2] [(7, 1)] = Inr G'
          \<and> dice_numpy (demo_collab 1) (np_equal (demo_collab 1) [0, 1, 1] 1)
               (np_equal (demo_collab 1) G' 1) = Inr 0)"
proof -
  have h: "validate_from_filepath (demo_collab 1) (demo_args False False 1) demo_world
             (PyStr ''ab'') = Inr ([[0, 1, 1], [0, 1, 1]], [1, 0])"
    using demo_validate_ab [of 1 False False 1] by simp
  from dice_entries_are_class_overlaps [OF h] obtain f1 G mp G' where
    f1: "getitem (PyStr ''ab'') 1 = Inr f1" and
    G: "nib_load demo_world f1 = Inr G" and
    mp: "read_mapping (demo_collab 1) (files demo_world)
           (mapping_y (demo_args False False 1)) = Inr mp" and
    G': "replace (demo_collab 1) G mp = Inr G'" and
    all: "\<forall>i. 0 \<le> i \<and> i < n_classes (demo_args False False 1) \<longrightarrow>
            dice_numpy (demo_collab 1)
              (np_equal (demo_collab 1) ([[0, 1, 1], [0, 1, 1]] ! 0) i)
              (np_equal (demo_collab 1) G' i) = Inr ([1, 0] ! nat i)"
    by blast
  from f1 have "f1 = ''b''" by simp
  with G have "G = [0, 7, 2]" by (simp add: nib_load_def demo_world_def)
  moreover from mp have "mp = [(7, 1)]" by (auto simp: demo_collab_def)
  ultimately have r: "replace (demo_collab 1) [0, 7, 2] [(7, 1)] = Inr G'"
    using G' by simp
  have "(0::int) \<le> 1 \<and> 1 < n_classes (demo_args False False 1)"
    by (simp add: demo_args_def)
  with all have
    "dice_numpy (demo_collab 1) (np_equal (demo_collab 1) ([[0, 1, 1], [0, 1, 1]] ! 0) 1)
       (np_equal (demo_collab 1) G' 1) = Inr ([1, 0] ! nat 1)"
    by blast
  then have "dice_numpy (demo_collab 1) (np_equal (demo_collab 1) [0, 1, 1] 1)
               (np_equal (demo_collab 1) G' 1) = Inr 0"
    by simp
  with h r show ?thesis by blast
qed

text \<open>
  C8.  If \<open>dice_numpy\<close> returns a number between 0 and 1 on every pair of masks, then
  the Dice vector that \<open>validate_from_filepath\<close> returns for the class count \<open>n_classes\<close>
  has exactly \<open>n_classes\<close> entries, each between 0 and 1.  The vector is the result of the
  loop over \<open>range(n_classes)\<close> started from \<open>np.zeros(n_classes)\<close>: it is built anew in
  the call and depends on nothing from an earlier call.
\<close>

theorem dice_vector_length_and_bounds:
  assumes "\<forall>u v. \<exists>r. dice_numpy c u v = Inr r \<and> 0 \<le> r \<and> r \<le> 1"
      and "validate_from_filepath c a w filepath = Inr (outputs, dice)"
  shows "0 \<le> n_classes a \<and> int (length dice) = n_classes a
         \<and> (\<forall>x \<in> set dice. 0 \<le> x \<and> x \<le> 1)
         \<and> (\<exists>p y. dice_loop c p y (py_range (n_classes a))
                      (replicate (nat (n_classes a)) 0) = Inr dice)"
proof -
  from validate_from_filepath_returns [OF assms(2)] obtain y' where
    n: "0 \<le> n_classes a" and
    run: "dice_loop c (outputs ! 0) y' (py_range (n_classes a))
            (replicate (nat (n_classes a)) 0) = Inr dice"
    by blast
  from dice_loop_result [OF run] n have len: "int (length dice) = n_classes a"
    by simp
  have contract: "\<forall>u v r. dice_numpy c u v = Inr r \<longrightarrow> 0 \<le> r \<and> r \<le> 1"
  proof (intro allI impI)
    fix u v r
    assume "dice_numpy c u v = Inr r"
    moreover from assms(1) obtain r' where
      "dice_numpy c u v = Inr r' \<and> 0 \<le> r' \<and> r' \<le> 1"
      by blast
    ultimately show "0 \<le> r \<and> r \<le> 1" by simp
  qed
  have "\<forall>x \<in> set (replicate (nat (n_classes a)) (0::real)). 0 \<le> x \<and> x \<le> 1"
    by simp
  from dice_loop_bounds [OF contract run this] have "\<forall>x \<in> set dice. 0 \<le> x \<and> x \<le> 1" .
  with n len run show ?thesis by blast
qed

theorem dice_vector_length_and_bounds_witness:
  "(\<forall>u v. \<exists>r. dice_numpy (demo_collab 1) u v = Inr r \<and> 0 \<le> r \<and> r \<le> 1)
   \<and> validate_from_filepath (demo_collab 1) (demo_args False False 1) demo_world (PyStr ''ab'')
       = Inr ([[0, 1, 1], [0, 1, 1]], [1, 0])
   \<and> int (length [1, 0 :: real]) = n_classes (demo_args False False 1)"
proof -
  have h: "validate_from_filepath (demo_collab 1) (demo_args False False 1) demo_world
             (PyStr ''ab'') = Inr ([[0, 1, 1], [0, 1, 1]], [1, 0])"
    using demo_validate_ab [of 1 False False 1] by simp
  from dice_vector_length_and_bounds [OF demo_metric_contract h]
  have "int (length [1, 0 :: real]) = n_classes (demo_args False False 1)"
    by blast
  with h demo_metric_contract [of 1] show ?thesis by blast
qed

text \<open>
  C6.  The docstring of \<open>validate_from_filepath\<close> asks for \<open>filepath\<close> as a tuple of the
  volume path and the ground truth path.  Line 57 hands the whole tuple to \<open>Path\<close>, not
  \<open>filepath[0]\<close>: for the pair below, and for any other tuple, the call raises
  \<open>TypeError\<close> whatever files exist, so a missing volume is never reported as a file that
  could not be found.  The batch validator called with that pair ends in the same
  \<open>TypeError\<close> in its first iteration, with nothing written.
\<close>

theorem validate_from_filepath_tuple_raises_TypeError:
  "validate_from_filepath c a w (PyTuple [''volume.nii.gz'', ''truth.nii.gz'']) = Inl TypeError
   \<and> validate_from_filepaths c a w [PyTuple [''volume.nii.gz'', ''truth.nii.gz'']]
       = (Inl TypeError, w)"
  by (simp add: validate_from_filepath_def validate_from_filepaths_def batch_step_def)

section \<open>The derived paths as text\<close>

text \<open>
  The name appended to the parent directory never holds a slash, so the text of each
  derived path is the directory prefix followed by that name.
\<close>

lemma split_on_nonempty: "split_on c s \<noteq> []"
  by (induction s) (auto split: list.splits)

lemma split_on_no_sep: "x \<in> set (split_on c s) \<Longrightarrow> c \<notin> set x"
  by (induction s arbitrary: x) (auto split: if_splits list.splits)

lemma split_on_chars: "x \<in> set (split_on c s) \<Longrightarrow> set x \<subseteq> set s"
  by (induction s arbitrary: x) (fastforce split: if_splits list.splits)+

lemma split_on_absent: "c \<notin> set s \<Longrightarrow> split_on c s = [s]"
  by (induction s) auto

lemma Path_parts_no_slash: "x \<in> set (p_parts (Path s)) \<Longrightarrow> CHR ''/'' \<notin> set x"
  by (auto simp: Path_def Let_def dest: split_on_no_sep)

lemma path_name_no_slash: "CHR ''/'' \<notin> set (path_name (Path s))"
proof (cases "p_parts (Path s) = []")
  case True
  then show ?thesis by (simp add: path_name_def)
next
  case False
  then have "last (p_parts (Path s)) \<in> set (p_parts (Path s))" by simp
  then have "CHR ''/'' \<notin> set (last (p_parts (Path s)))" by (rule Path_parts_no_slash)
  with False show ?thesis by (simp add: path_name_def)
qed

lemma path_stem_chars: "set (path_stem p) \<subseteq> set (path_name p)"
  by (auto simp: path_stem_def Let_def dest: in_set_takeD)

lemma str_join_chars: "set (str_join sep xs) \<subseteq> set sep \<union> \<Union> (set ` set xs)"
  by (induction sep xs rule: str_join.induct) auto

lemma path_suffixes_chars:
  "x \<in> set (path_suffixes p) \<Longrightarrow> set x \<subseteq> insert CHR ''.'' (set (path_name p))"
proof -
  assume "x \<in> set (path_suffixes p)"
  then obtain y where y: "y \<in> set (tl (split_on CHR ''.'' (lstrip CHR ''.'' (path_name p))))"
    and x: "x = CHR ''.'' # y"
    by (auto simp: path_suffixes_def Let_def split: if_splits)
  from y have "y \<in> set (split_on CHR ''.'' (lstrip CHR ''.'' (path_name p)))"
    by (rule list.set_sel(2) [rotated]) (simp add: split_on_nonempty)
  then have "set y \<subseteq> set (lstrip CHR ''.'' (path_name p))" by (rule split_on_chars)
  also have "\<dots> \<subseteq> set (path_name p)" by (simp add: lstrip_def set_dropWhileD subsetI)
  finally show ?thesis using x by auto
qed

lemma joined_suffixes_chars:
  "set (joined_suffixes p) \<subseteq> insert CHR ''.'' (set (path_name p))"
  using str_join_chars [of "''.''" "path_suffixes p"] path_suffixes_chars [of _ p]
  by (auto simp: joined_suffixes_def)

lemma str_join_snoc:
  "str_join sep (xs @ [x]) = (if xs = [] then x else str_join sep xs @ sep @ x)"
  by (induction sep xs rule: str_join.induct) auto

lemma Path_simple:
  assumes "CHR ''/'' \<notin> set x" "x \<noteq> []" "x \<noteq> ''.''"
  shows "Path x = \<lparr>p_root = [], p_parts = [x]\<rparr>"
proof -
  from assms have "hd x \<noteq> CHR ''/''" by (cases x) auto
  with assms show ?thesis by (simp add: Path_def Let_def split_on_absent)
qed

lemma path_str_truediv_simple:
  assumes "CHR ''/'' \<notin> set x" "x \<noteq> []" "x \<noteq> ''.''"
  shows "path_str (truediv d x) = dir_prefix d @ x"
  using assms by (simp add: truediv_def Path_simple path_str_def str_join_snoc dir_prefix_def)

lemma derived_name_simple:
  assumes "tag \<noteq> []" "CHR ''/'' \<notin> set tag" "length tag \<ge> 2"
  shows "CHR ''/'' \<notin> set (path_stem (Path f0) @ tag @ joined_suffixes (Path f0))
         \<and> path_stem (Path f0) @ tag @ joined_suffixes (Path f0) \<noteq> []
         \<and> path_stem (Path f0) @ tag @ joined_suffixes (Path f0) \<noteq> ''.''"
proof -
  have "CHR ''/'' \<notin> set (path_stem (Path f0))"
    using path_stem_chars [of "Path f0"] path_name_no_slash [of f0] by blast
  moreover have "CHR ''/'' \<notin> set (joined_suffixes (Path f0))"
    using joined_suffixes_chars [of "Path f0"] path_name_no_slash [of f0] by auto
  moreover have "length (path_stem (Path f0) @ tag @ joined_suffixes (Path f0)) \<ge> 2"
    using assms(3) by simp
  then have "path_stem (Path f0) @ tag @ joined_suffixes (Path f0) \<noteq> ''.''"
    by (metis One_nat_def length_Cons list.size(3) numeral_le_one_iff semiring_norm(69))
  ultimately show ?thesis using assms by auto
qed

lemma path_str_meanPath:
  "path_str (meanPath f0) =
     dir_prefix (path_parent (Path f0)) @ path_stem (Path f0) @ ''_mean.''
       @ joined_suffixes (Path f0)"
  using derived_name_simple [of "''_mean.''" f0]
  by (simp add: meanPath_def Let_def path_str_truediv_simple)

lemma path_str_variancePath:
  "path_str (variancePath f0) =
     dir_prefix (path_parent (Path f0)) @ path_stem (Path f0) @ ''_variance.''
       @ joined_suffixes (Path f0)"
  using derived_name_simple [of "''_variance.''" f0]
  by (simp add: variancePath_def Let_def path_str_truediv_simple)

lemma path_str_entropyPath:
  "path_str (entropyPath f0) =
     dir_prefix (path_parent (Path f0)) @ path_stem (Path f0) @ ''_entropy.''
       @ joined_suffixes (Path f0)"
  using derived_name_simple [of "''_entropy.''" f0]
  by (simp add: entropyPath_def Let_def path_str_truediv_simple)

lemma path_str_dicePath:
  "path_str (dicePath f0) =
     dir_prefix (path_parent (Path f0)) @ path_stem (Path f0) @ ''_dice.npy''"
proof -
  have "CHR ''/'' \<notin> set (path_stem (Path f0))"
    using path_stem_chars [of "Path f0"] path_name_no_slash [of f0] by blast
  then show ?thesis
    by (simp add: dicePath_def Let_def path_str_truediv_simple)
qed

lemma variance_path_distinct:
  "path_str (meanPath f0) \<noteq> path_str (variancePath f0)"
  "path_str (entropyPath f0) \<noteq> path_str (variancePath f0)"
  "path_str (meanPath f0) \<noteq> path_str (entropyPath f0)"
  by (simp_all add: path_str_meanPath path_str_variancePath path_str_entropyPath)

lemma endswith_append: "endswith (xs @ t) t"
  by (simp add: endswith_def)

lemma dicePath_endswith_npy: "endswith (path_str (dicePath f0)) ''.npy''"
  using endswith_append
    [of "dir_prefix (path_parent (Path f0)) @ path_stem (Path f0) @ ''_dice''" "''.npy''"]
  by (simp add: path_str_dicePath)

section \<open>What an iteration and the loop do\<close>

lemma trace_nib_save: "trace (nib_save v p w) = trace w @ [NibSave p v]"
  by (simp add: nib_save_def)

lemma batch_step_validated:
  assumes "validate_from_filepath c a w filepath = Inr (outputs, dice)"
      and "getitem filepath 0 = Inr f0"
  shows "batch_step c a w filepath =
     (if is_file w (meanPath f0) \<or> is_file w (variancePath f0) \<or> is_file w (entropyPath f0)
      then (Inl (Exception (exists_message f0)), w)
      else
        (let w1 = nib_save (outputs ! 0) (path_str (meanPath f0)) w
         in if \<not> returnArrayFromImages a then
              (case save_secondary a outputs f0 w1 of
                 (Inl e, w2) \<Rightarrow> (Inl e, w2)
               | (Inr u, w2) \<Rightarrow> (Inr (filepath, dice, dicePath f0), w2))
            else (Inr (filepath, dice, dicePath f0), w1)))"
proof -
  from validate_from_filepath_returns [OF assms(1)] have "outputs \<noteq> []" by blast
  then have "tuple_getitem outputs 0 = Inr (outputs ! 0)" by (simp add: tuple_getitem_def)
  with assms show ?thesis by (simp add: batch_step_def)
qed

lemma batch_step_Inr:
  assumes "batch_step c a w filepath = (Inr vars, w')"
  shows "\<exists>outputs dice f0.
           validate_from_filepath c a w filepath = Inr (outputs, dice)
           \<and> getitem filepath 0 = Inr f0
           \<and> vars = (filepath, dice, dicePath f0)
           \<and> \<not> (is_file w (meanPath f0) \<or> is_file w (variancePath f0)
                  \<or> is_file w (entropyPath f0))"
  using assms
  by (auto simp: batch_step_def Let_def split: sum.splits prod.splits if_splits)

lemma save_secondary_events:
  assumes "save_secondary a outputs f0 w = (r, w')"
  shows "\<exists>evs. trace w' = trace w @ evs
           \<and> (\<forall>e \<in> set evs. \<exists>v.
                 e = NibSave (path_str (entropyPath f0)) v
                 \<or> (e = NibSave (path_str (variancePath f0)) v
                      \<and> n_samples a > 1 \<and> returnVariance a))"
  using assms
  by (auto simp: save_secondary_def Let_def trace_nib_save split: sum.splits if_splits)

lemma batch_step_events:
  assumes "batch_step c a w filepath = (r, w')"
  shows "\<exists>evs. trace w' = trace w @ evs
           \<and> (\<forall>e \<in> set evs. \<exists>f0 v. getitem filepath 0 = Inr f0 \<and>
                 (e = NibSave (path_str (meanPath f0)) v
                  \<or> e = NibSave (path_str (entropyPath f0)) v
                  \<or> (e = NibSave (path_str (variancePath f0)) v
                      \<and> n_samples a > 1 \<and> returnVariance a)))"
proof (cases "validate_from_filepath c a w filepath")
  case (Inl e)
  with assms show ?thesis by (simp add: batch_step_def)
next
  case (Inr res)
  obtain outputs dice where res: "res = (outputs, dice)" by (cases res)
  from validate_from_filepath_returns [OF Inr [unfolded res]] obtain f0 where
    f0: "getitem filepath 0 = Inr f0" by blast
  note step = batch_step_validated [OF Inr [unfolded res] f0]
  show ?thesis
  proof (cases "is_file w (meanPath f0) \<or> is_file w (variancePath f0)
                 \<or> is_file w (entropyPath f0)")
    case True
    with step assms show ?thesis by simp
  next
    case False
    define w1 where "w1 = nib_save (outputs ! 0) (path_str (meanPath f0)) w"
    have tr1: "trace w1 = trace w @ [NibSave (path_str (meanPath f0)) (outputs ! 0)]"
      by (simp add: w1_def trace_nib_save)
    show ?thesis
    proof (cases "returnArrayFromImages a")
      case True
      with step False assms have "w' = w1" by (simp add: w1_def Let_def)
      with tr1 f0 show ?thesis by auto
    next
      case ret: False
      obtain r2 w2 where sec: "save_secondary a outputs f0 w1 = (r2, w2)"
        by (cases "save_secondary a outputs f0 w1")
      with step False ret assms have "w' = w2"
        by (cases r2) (simp_all add: w1_def Let_def)
      from save_secondary_events [OF sec] obtain evs where
        evs: "trace w2 = trace w1 @ evs" and
        each: "\<forall>e \<in> set evs. \<exists>v.
                 e = NibSave (path_str (entropyPath f0)) v
                 \<or> (e = NibSave (path_str (variancePath f0)) v
                      \<and> n_samples a > 1 \<and> returnVariance a)"
        by blast
      from evs tr1 \<open>w' = w2\<close> have
        "trace w' = trace w @ (NibSave (path_str (meanPath f0)) (outputs ! 0) # evs)"
        by simp
      moreover from each f0 have
        "\<forall>e \<in> set (NibSave (path_str (meanPath f0)) (outputs ! 0) # evs).
           \<exists>f0 v. getitem filepath 0 = Inr f0 \<and>
                 (e = NibSave (path_str (meanPath f0)) v
                  \<or> e = NibSave (path_str (entropyPath f0)) v
                  \<or> (e = NibSave (path_str (variancePath f0)) v
                      \<and> n_samples a > 1 \<and> returnVariance a))"
        by auto
      ultimately show ?thesis by blast
    qed
  qed
qed

lemma batch_loop_events:
  "batch_loop c a w filepaths vars = (r, w') \<Longrightarrow>
     \<exists>evs. trace w' = trace w @ evs
       \<and> (\<forall>e \<in> set evs. \<exists>filepath \<in> set filepaths. \<exists>f0 v. getitem filepath 0 = Inr f0 \<and>
                 (e = NibSave (path_str (meanPath f0)) v
                  \<or> e = NibSave (path_str (entropyPath f0)) v
                  \<or> (e = NibSave (path_str (variancePath f0)) v
                      \<and> n_samples a > 1 \<and> returnVariance a)))"
proof (induction filepaths arbitrary: w vars)
  case Nil
  then show ?case by simp
next
  case (Cons filepath rest)
  obtain r1 w1 where step: "batch_step c a w filepath = (r1, w1)"
    by (cases "batch_step c a w filepath")
  from batch_step_events [OF step] obtain evs1 where
    e1: "trace w1 = trace w @ evs1" and
    each1: "\<forall>e \<in> set evs1. \<exists>f0 v. getitem filepath 0 = Inr f0 \<and>
                 (e = NibSave (path_str (meanPath f0)) v
                  \<or> e = NibSave (path_str (entropyPath f0)) v
                  \<or> (e = NibSave (path_str (variancePath f0)) v
                      \<and> n_samples a > 1 \<and> returnVariance a))"
    by blast
  show ?case
  proof (cases r1)
    case (Inl e)
    with Cons.prems step have "w' = w1" by simp
    with e1 each1 show ?thesis by auto
  next
    case (Inr vars')
    with Cons.prems step have "batch_loop c a w1 rest (Some vars') = (r, w')" by simp
    from Cons.IH [OF this] obtain evs2 where
      e2: "trace w' = trace w1 @ evs2" and
      each2: "\<forall>e \<in> set evs2. \<exists>filepath \<in> set rest. \<exists>f0 v. getitem filepath 0 = Inr f0 \<and>
                 (e = NibSave (path_str (meanPath f0)) v
                  \<or> e = NibSave (path_str (entropyPath f0)) v
                  \<or> (e = NibSave (path_str (variancePath f0)) v
                      \<and> n_samples a > 1 \<and> returnVariance a))"
      by blast
    from e1 e2 have "trace w' = trace w @ (evs1 @ evs2)" by simp
    moreover from each1 each2 have
      "\<forall>e \<in> set (evs1 @ evs2). \<exists>fp \<in> set (filepath # rest). \<exists>f0 v. getitem fp 0 = Inr f0 \<and>
                 (e = NibSave (path_str (meanPath f0)) v
                  \<or> e = NibSave (path_str (entropyPath f0)) v
                  \<or> (e = NibSave (path_str (variancePath f0)) v
                      \<and> n_samples a > 1 \<and> returnVariance a))"
      by (auto; blast)
    ultimately show ?thesis by blast
  qed
qed

lemma batch_loop_append:
  "batch_loop c a w (xs @ ys) vars =
     (case batch_loop c a w xs vars of
        (Inl e, w') \<Rightarrow> (Inl e, w')
      | (Inr vars', w') \<Rightarrow> batch_loop c a w' ys vars')"
  by (induction xs arbitrary: w vars) (auto split: sum.splits prod.splits)

lemma final_actions_events:
  assumes "final_actions c vars w = (r, w')"
  shows "\<exists>evs. trace w' = trace w @ evs \<and> (\<forall>p v. NibSave p v \<notin> set evs)"
  using assms
  by (auto simp: final_actions_def Let_def np_save_def print_def print_dice_def
        split: option.splits sum.splits prod.splits)

lemma np_save_dicePath:
  "np_save (path_str (dicePath f0)) dice w =
     w\<lparr>files := (files w)(path_str (dicePath f0) \<mapsto> NpyArray dice),
       trace := trace w @ [NpSave (path_str (dicePath f0)) dice]\<rparr>"
  by (simp add: np_save_def dicePath_endswith_npy Let_def)

section \<open>Evaluating concrete batch runs\<close>

lemma demo_paths_a:
  "path_str (meanPath ''a'') = ''a_mean.''"
  "path_str (variancePath ''a'') = ''a_variance.''"
  "path_str (entropyPath ''a'') = ''a_entropy.''"
  "path_str (dicePath ''a'') = ''a_dice.npy''"
  by (simp_all add: meanPath_def variancePath_def entropyPath_def dicePath_def Path_def lstrip_def
        path_str_def path_parent_def path_stem_def path_name_def rfind_def joined_suffixes_def
        path_suffixes_def endswith_def truediv_def)

lemma demo_paths_c:
  "path_str (meanPath ''c'') = ''c_mean.''"
  "path_str (variancePath ''c'') = ''c_variance.''"
  "path_str (entropyPath ''c'') = ''c_entropy.''"
  "path_str (dicePath ''c'') = ''c_dice.npy''"
  by (simp_all add: meanPath_def variancePath_def entropyPath_def dicePath_def Path_def lstrip_def
        path_str_def path_parent_def path_stem_def path_name_def rfind_def joined_suffixes_def
        path_suffixes_def endswith_def truediv_def)

lemma demo_step_ab_in:
  assumes "files w ''ab'' = Some (Other [])" "files w ''a'' = Some (Image [0, 1, 1])"
    "files w ''b'' = Some (Image [0, 7, 2])"
    "files w ''a_mean.'' = None" "files w ''a_variance.'' = None" "files w ''a_entropy.'' = None"
  shows "batch_step (demo_collab 1) (demo_args rv re 1) w (PyStr ''ab'')
     = (Inr (PyStr ''ab'', [1, 0], dicePath ''a''),
        nib_save [0, 1, 1] ''a_entropy.'' (nib_save [0, 1, 1] ''a_mean.'' w))"
proof -
  have v: "validate_from_filepath (demo_collab 1) (demo_args rv re 1) w (PyStr ''ab'')
     = Inr ([[0, 1, 1], [0, 1, 1]], [1, 0])"
    using demo_validate_ab_in [OF assms(1-3), of 1 rv re 1] by simp
  have g: "getitem (PyStr ''ab'') 0 = Inr ''a''" by simp
  show ?thesis
    unfolding batch_step_validated [OF v g] using assms(4-6)
    by (simp add: is_file_def demo_paths_a demo_args_def save_secondary_def
          tuple_getitem_def Let_def)
qed

lemma demo_step_cd_in:
  assumes "files w ''cd'' = Some (Other [])" "files w ''c'' = Some (Image [1, 1, 1])"
    "files w ''d'' = Some (Image [7, 7, 7])"
    "files w ''c_mean.'' = None" "files w ''c_variance.'' = None" "files w ''c_entropy.'' = None"
  shows "batch_step (demo_collab 1) (demo_args rv re 1) w (PyStr ''cd'')
     = (Inr (PyStr ''cd'', [1, 1], dicePath ''c''),
        nib_save [1, 1, 1] ''c_entropy.'' (nib_save [1, 1, 1] ''c_mean.'' w))"
proof -
  have v: "validate_from_filepath (demo_collab 1) (demo_args rv re 1) w (PyStr ''cd'')
     = Inr ([[1, 1, 1], [1, 1, 1]], [1, 1])"
    using demo_validate_cd_in [OF assms(1-3), of 1 rv re 1] by simp
  have g: "getitem (PyStr ''cd'') 0 = Inr ''c''" by simp
  show ?thesis
    unfolding batch_step_validated [OF v g] using assms(4-6)
    by (simp add: is_file_def demo_paths_c demo_args_def save_secondary_def
          tuple_getitem_def Let_def)
qed

lemma demo_step_ab:
  "batch_step (demo_collab 1) (demo_args rv re 1) demo_world (PyStr ''ab'')
     = (Inr (PyStr ''ab'', [1, 0], dicePath ''a''),
        nib_save [0, 1, 1] ''a_entropy.'' (nib_save [0, 1, 1] ''a_mean.'' demo_world))"
  by (rule demo_step_ab_in) (simp_all add: demo_world_def)

lemma demo_step_cd_after_ab:
  "batch_step (demo_collab 1) (demo_args rv re 1)
       (nib_save [0, 1, 1] ''a_entropy.'' (nib_save [0, 1, 1] ''a_mean.'' demo_world))
       (PyStr ''cd'')
     = (Inr (PyStr ''cd'', [1, 1], dicePath ''c''),
        nib_save [1, 1, 1] ''c_entropy.'' (nib_save [1, 1, 1] ''c_mean.''
          (nib_save [0, 1, 1] ''a_entropy.'' (nib_save [0, 1, 1] ''a_mean.'' demo_world))))"
  by (rule demo_step_cd_in) (simp_all add: demo_world_def nib_save_def)

lemma demo_np_mean: "np_mean (demo_collab k) [1, 1] = 1"
  by (simp add: demo_collab_def)

lemma demo_batch_ab_cd:
  "validate_from_filepaths (demo_collab 1) (demo_args rv re 1) demo_world
       [PyStr ''ab'', PyStr ''cd'']
     = (Inr (),
        np_save ''c_dice.npy'' [1, 1] (print_dice 1 (print ''c''
          (nib_save [1, 1, 1] ''c_entropy.'' (nib_save [1, 1, 1] ''c_mean.''
            (nib_save [0, 1, 1] ''a_entropy.'' (nib_save [0, 1, 1] ''a_mean.'' demo_world)))))))"
  by (simp add: validate_from_filepaths_def demo_step_ab demo_step_cd_after_ab
        final_actions_def demo_paths_c Let_def demo_np_mean del: One_nat_def)

lemma demo_step_three_outputs:
  "batch_step (demo_collab 2) (demo_args True True 2) demo_world (PyStr ''ab'')
     = (Inr (PyStr ''ab'', [1, 0], dicePath ''a''),
        nib_save [0, 1, 1] ''a_entropy.'' (nib_save [0, 1, 1] ''a_variance.''
          (nib_save [0, 1, 1] ''a_mean.'' demo_world)))"
proof -
  have v: "validate_from_filepath (demo_collab 2) (demo_args True True 2) demo_world
             (PyStr ''ab'') = Inr ([[0, 1, 1], [0, 1, 1], [0, 1, 1]], [1, 0])"
    using demo_validate_ab [of 2 True True 2] by (simp add: numeral_2_eq_2)
  have g: "getitem (PyStr ''ab'') 0 = Inr ''a''" by simp
  show ?thesis
    unfolding batch_step_validated [OF v g]
    by (simp add: is_file_def demo_paths_a demo_world_def demo_args_def save_secondary_def
          tuple_getitem_def Let_def)
qed

section \<open>Properties of the batch validator\<close>

text \<open>
  C2.  For the input name \<open>volume.nii.gz\<close> the code derives the names below, not
  \<open>volume_mean.nii.gz\<close>, \<open>volume_variance.nii.gz\<close>, \<open>volume_entropy.nii.gz\<close> and
  \<open>volume_dice.npy\<close>: \<open>stem\<close> removes the last suffix only, and every item of
  \<open>suffixes\<close> starts with the dot that \<open>'_mean.'\<close> and the join add again.
\<close>

theorem derived_paths_of_volume_nii_gz:
  "path_str (meanPath ''volume.nii.gz'') = ''volume.nii_mean..nii..gz''
   \<and> path_str (variancePath ''volume.nii.gz'') = ''volume.nii_variance..nii..gz''
   \<and> path_str (entropyPath ''volume.nii.gz'') = ''volume.nii_entropy..nii..gz''
   \<and> path_str (dicePath ''volume.nii.gz'') = ''volume.nii_dice.npy''"
  by (simp add: meanPath_def variancePath_def entropyPath_def dicePath_def Path_def lstrip_def
        path_str_def path_parent_def path_stem_def path_name_def rfind_def joined_suffixes_def
        path_suffixes_def endswith_def truediv_def)

text \<open>
  C10.  Called with an empty sequence, the batch validator runs no iteration, reaches
  \<open>print(filepath[0])\<close> with \<open>filepath\<close> unbound and raises \<open>UnboundLocalError\<close> (a
  \<open>NameError\<close>); the file system and the output are as before the call.
\<close>

theorem empty_batch_raises_unbound_name:
  "validate_from_filepaths c a w [] = (Inl (UnboundLocalError ''filepath''), w)"
  by (simp add: validate_from_filepaths_def final_actions_def)

text \<open>
  C3.  In an iteration with \<open>returnArrayFromImages\<close> false, whatever its outcome, a volume
  is saved to the variance path only if \<open>n_samples > 1 and returnVariance\<close> holds.  When
  the iteration runs to its end, the mean volume is saved first and then: \<open>outputs[1]\<close>
  to the variance path and \<open>outputs[2]\<close> to the entropy path when
  \<open>n_samples > 1 and returnVariance\<close> holds together with \<open>returnEntropy\<close>;
  \<open>outputs[1]\<close> to the variance path alone when only \<open>n_samples > 1 and returnVariance\<close>
  holds; and \<open>outputs[1]\<close> to the entropy path in every other case, whether or not
  entropy was requested.  After such an iteration a file stands at the variance path
  exactly when \<open>n_samples > 1 and returnVariance\<close>.
\<close>

theorem secondary_volume_selection:
  assumes "\<not> returnArrayFromImages a"
      and "validate_from_filepath c a w filepath = Inr (outputs, dice)"
      and "getitem filepath 0 = Inr f0"
      and "batch_step c a w filepath = (r, w')"
  shows "(\<exists>evs. trace w' = trace w @ evs
            \<and> ((\<exists>v. NibSave (path_str (variancePath f0)) v \<in> set evs)
                 \<longrightarrow> n_samples a > 1 \<and> returnVariance a))
         \<and> ((\<exists>vars. r = Inr vars) \<longrightarrow>
               trace w' = trace w @ NibSave (path_str (meanPath f0)) (outputs ! 0) #
                 (if (n_samples a > 1 \<and> returnVariance a) \<and> returnEntropy a
                  then [NibSave (path_str (variancePath f0)) (outputs ! 1),
                        NibSave (path_str (entropyPath f0)) (outputs ! 2)]
                  else if n_samples a > 1 \<and> returnVariance a
                  then [NibSave (path_str (variancePath f0)) (outputs ! 1)]
                  else [NibSave (path_str (entropyPath f0)) (outputs ! 1)])
               \<and> (files w' (path_str (variancePath f0)) \<noteq> None)
                   = (n_samples a > 1 \<and> returnVariance a))
         \<and> path_str (variancePath f0) \<noteq> path_str (entropyPath f0)
         \<and> path_str (variancePath f0) \<noteq> path_str (meanPath f0)"
proof -
  note d = variance_path_distinct [of f0]
  from batch_step_events [OF assms(4)] obtain evs where
    tr: "trace w' = trace w @ evs" and
    each: "\<forall>e \<in> set evs. \<exists>f v. getitem filepath 0 = Inr f \<and>
             (e = NibSave (path_str (meanPath f)) v
              \<or> e = NibSave (path_str (entropyPath f)) v
              \<or> (e = NibSave (path_str (variancePath f)) v
                  \<and> n_samples a > 1 \<and> returnVariance a))"
    by blast
  have only_if: "n_samples a > 1 \<and> returnVariance a"
    if "\<exists>v. NibSave (path_str (variancePath f0)) v \<in> set evs"
  proof -
    from that obtain v where "NibSave (path_str (variancePath f0)) v \<in> set evs" by blast
    with each obtain f v' where
      f: "getitem filepath 0 = Inr f" and
      alt: "NibSave (path_str (variancePath f0)) v = NibSave (path_str (meanPath f)) v'
            \<or> NibSave (path_str (variancePath f0)) v = NibSave (path_str (entropyPath f)) v'
            \<or> (NibSave (path_str (variancePath f0)) v = NibSave (path_str (variancePath f)) v'
                \<and> n_samples a > 1 \<and> returnVariance a)"
      by blast
    from f assms(3) have "f = f0" by simp
    with alt d show ?thesis by auto
  qed
  have complete:
    "trace w' = trace w @ NibSave (path_str (meanPath f0)) (outputs ! 0) #
       (if (n_samples a > 1 \<and> returnVariance a) \<and> returnEntropy a
        then [NibSave (path_str (variancePath f0)) (outputs ! 1),
              NibSave (path_str (entropyPath f0)) (outputs ! 2)]
        else if n_samples a > 1 \<and> returnVariance a
        then [NibSave (path_str (variancePath f0)) (outputs ! 1)]
        else [NibSave (path_str (entropyPath f0)) (outputs ! 1)])
     \<and> (files w' (path_str (variancePath f0)) \<noteq> None)
         = (n_samples a > 1 \<and> returnVariance a)"
    if "\<exists>vars. r = Inr vars"
  proof -
    from that obtain vars where r: "r = Inr vars" by blast
    with assms(4) have step: "batch_step c a w filepath = (Inr vars, w')" by simp
    from batch_step_Inr [OF step] assms(2,3) have
      free: "\<not> (is_file w (meanPath f0) \<or> is_file w (variancePath f0)
               \<or> is_file w (entropyPath f0))"
      by auto
    then have none: "files w (path_str (variancePath f0)) = None"
      by (simp add: is_file_def)
    from step free assms(1) have
      "(case save_secondary a outputs f0
               (nib_save (outputs ! 0) (path_str (meanPath f0)) w) of
          (Inl e, w2) \<Rightarrow> (Inl e, w2)
        | (Inr u, w2) \<Rightarrow> (Inr (filepath, dice, dicePath f0), w2)) = (Inr vars, w')"
      unfolding batch_step_validated [OF assms(2,3)] by (simp add: Let_def)
    then have sec: "save_secondary a outputs f0
        (nib_save (outputs ! 0) (path_str (meanPath f0)) w) = (Inr (), w')"
      by (auto split: prod.splits sum.splits)
    from sec none d show ?thesis
      by (auto simp: save_secondary_def Let_def tuple_getitem_def nib_save_def
            split: if_splits)
  qed
  from tr only_if have c1:
    "\<exists>evs. trace w' = trace w @ evs
       \<and> ((\<exists>v. NibSave (path_str (variancePath f0)) v \<in> set evs)
            \<longrightarrow> n_samples a > 1 \<and> returnVariance a)"
    by blast
  from d have d1: "path_str (variancePath f0) \<noteq> path_str (entropyPath f0)"
    and d2: "path_str (variancePath f0) \<noteq> path_str (meanPath f0)"
    by simp_all
  show ?thesis
  proof (intro conjI impI)
    show "\<exists>evs. trace w' = trace w @ evs
       \<and> ((\<exists>v. NibSave (path_str (variancePath f0)) v \<in> set evs)
            \<longrightarrow> n_samples a > 1 \<and> returnVariance a)"
      by (rule c1)
  next
    assume "\<exists>vars. r = Inr vars"
    from complete [OF this] show
      "trace w' = trace w @ NibSave (path_str (meanPath f0)) (outputs ! 0) #
         (if (n_samples a > 1 \<and> returnVariance a) \<and> returnEntropy a
          then [NibSave (path_str (variancePath f0)) (outputs ! 1),
                NibSave (path_str (entropyPath f0)) (outputs ! 2)]
          else if n_samples a > 1 \<and> returnVariance a
          then [NibSave (path_str (variancePath f0)) (outputs ! 1)]
          else [NibSave (path_str (entropyPath f0)) (outputs ! 1)])"
      by (rule conjunct1)
  next
    assume "\<exists>vars. r = Inr vars"
    from complete [OF this] show
      "(files w' (path_str (variancePath f0)) \<noteq> None)
         = (n_samples a > 1 \<and> returnVariance a)"
      by (rule conjunct2)
  next
    show "path_str (variancePath f0) \<noteq> path_str (entropyPath f0)" by (rule d1)
  next
    show "path_str (variancePath f0) \<noteq> path_str (meanPath f0)" by (rule d2)
  qed
qed

theorem secondary_volume_selection_witness:
  "\<not> returnArrayFromImages (demo_args True True 2)
   \<and> validate_from_filepath (demo_collab 2) (demo_args True True 2) demo_world (PyStr ''ab'')
       = Inr ([[0, 1, 1], [0, 1, 1], [0, 1, 1]], [1, 0])
   \<and> getitem (PyStr ''ab'') 0 = Inr ''a''
   \<and> batch_step (demo_collab 2) (demo_args True True 2) demo_world (PyStr ''ab'')
       = (Inr (PyStr ''ab'', [1, 0], dicePath ''a''),
          nib_save [0, 1, 1] ''a_entropy.'' (nib_save [0, 1, 1] ''a_variance.''
            (nib_save [0, 1, 1] ''a_mean.'' demo_world)))
   \<and> trace (nib_save [0, 1, 1] ''a_entropy.'' (nib_save [0, 1, 1] ''a_variance.''
            (nib_save [0, 1, 1] ''a_mean.'' demo_world)))
       = [NibSave ''a_mean.'' [0, 1, 1], NibSave ''a_variance.'' [0, 1, 1],
          NibSave ''a_entropy.'' [0, 1, 1]]"
proof -
  have h1: "\<not> returnArrayFromImages (demo_args True True 2)"
    by (simp add: demo_args_def)
  have h2: "validate_from_filepath (demo_collab 2) (demo_args True True 2) demo_world
              (PyStr ''ab'') = Inr ([[0, 1, 1], [0, 1, 1], [0, 1, 1]], [1, 0])"
    using demo_validate_ab [of 2 True True 2] by (simp add: numeral_2_eq_2)
  have h3: "getitem (PyStr ''ab'') 0 = Inr ''a''" by simp
  note h4 = demo_step_three_outputs
  from secondary_volume_selection [OF h1 h2 h3 h4]
  have "trace (nib_save [0, 1, 1] ''a_entropy.'' (nib_save [0, 1, 1] ''a_variance.''
            (nib_save [0, 1, 1] ''a_mean.'' demo_world)))
       = [NibSave ''a_mean.'' [0, 1, 1], NibSave ''a_variance.'' [0, 1, 1],
          NibSave ''a_entropy.'' [0, 1, 1]]"
    by (simp add: demo_paths_a demo_args_def demo_world_def)
  with h1 h2 h3 h4 show ?thesis by blast
qed

text \<open>
  Without the condition that the iteration runs to its end the selection does not hold.
  With a predictor that returns the mean only, \<open>n_samples = 2\<close> and \<open>returnVariance\<close>
  true, the iteration ends in \<open>IndexError\<close> at \<open>outputs[1]\<close> and nothing stands at the
  variance path; with the default flags it ends in the same way and nothing stands at the
  entropy path.
\<close>

theorem secondary_volume_selection_counterexample:
  "\<not> returnArrayFromImages (demo_args True False 2)
   \<and> (n_samples (demo_args True False 2) > 1 \<and> returnVariance (demo_args True False 2))
   \<and> batch_step (demo_collab 0) (demo_args True False 2) demo_world (PyStr ''ab'')
       = (Inl IndexError, nib_save [0, 1, 1] ''a_mean.'' demo_world)
   \<and> path_str (variancePath ''a'') = ''a_variance.''
   \<and> files (nib_save [0, 1, 1] ''a_mean.'' demo_world) ''a_variance.'' = None
   \<and> trace (nib_save [0, 1, 1] ''a_mean.'' demo_world) = [NibSave ''a_mean.'' [0, 1, 1]]
   \<and> \<not> returnArrayFromImages (demo_args False False 1)
   \<and> batch_step (demo_collab 0) (demo_args False False 1) demo_world (PyStr ''ab'')
       = (Inl IndexError, nib_save [0, 1, 1] ''a_mean.'' demo_world)
   \<and> path_str (entropyPath ''a'') = ''a_entropy.''
   \<and> files (nib_save [0, 1, 1] ''a_mean.'' demo_world) ''a_entropy.'' = None"
proof -
  have g: "getitem (PyStr ''ab'') 0 = Inr ''a''" by simp
  have v1: "validate_from_filepath (demo_collab 0) (demo_args True False 2) demo_world
              (PyStr ''ab'') = Inr ([[0, 1, 1]], [1, 0])"
    using demo_validate_ab [of 0 True False 2] by simp
  have s1: "batch_step (demo_collab 0) (demo_args True False 2) demo_world (PyStr ''ab'')
       = (Inl IndexError, nib_save [0, 1, 1] ''a_mean.'' demo_world)"
    unfolding batch_step_validated [OF v1 g]
    by (simp add: is_file_def demo_paths_a demo_world_def demo_args_def save_secondary_def
          tuple_getitem_def Let_def)
  have v2: "validate_from_filepath (demo_collab 0) (demo_args False False 1) demo_world
              (PyStr ''ab'') = Inr ([[0, 1, 1]], [1, 0])"
    using demo_validate_ab [of 0 False False 1] by simp
  have s2: "batch_step (demo_collab 0) (demo_args False False 1) demo_world (PyStr ''ab'')
       = (Inl IndexError, nib_save [0, 1, 1] ''a_mean.'' demo_world)"
    unfolding batch_step_validated [OF v2 g]
    by (simp add: is_file_def demo_paths_a demo_world_def demo_args_def save_secondary_def
          tuple_getitem_def Let_def)
  have f: "files (nib_save [0, 1, 1] ''a_mean.'' demo_world) ''a_variance.'' = None"
    "files (nib_save [0, 1, 1] ''a_mean.'' demo_world) ''a_entropy.'' = None"
    "trace (nib_save [0, 1, 1] ''a_mean.'' demo_world) = [NibSave ''a_mean.'' [0, 1, 1]]"
    by (simp_all add: nib_save_def demo_world_def)
  have a: "\<not> returnArrayFromImages (demo_args True False 2)"
    "n_samples (demo_args True False 2) > 1 \<and> returnVariance (demo_args True False 2)"
    "\<not> returnArrayFromImages (demo_args False False 1)"
    by (simp_all add: demo_args_def)
  from a s1 s2 f demo_paths_a(2,3) show ?thesis by simp
qed

text \<open>
  C9.  With \<open>returnArrayFromImages\<close> false and \<open>n_samples > 1 and returnVariance\<close>
  false, an iteration that has passed validation and the conflict check saves the mean
  and then reads \<open>outputs[1]\<close>: when the predictor returned the mean only, the iteration
  ends in \<open>IndexError\<close> with the mean volume already written; with two outputs or more
  it saves \<open>outputs[1]\<close> to the entropy path.
\<close>

theorem fallthrough_branch_indexes_second_output:
  assumes "\<not> returnArrayFromImages a"
      and "\<not> (n_samples a > 1 \<and> returnVariance a)"
      and "validate_from_filepath c a w filepath = Inr (outputs, dice)"
      and "getitem filepath 0 = Inr f0"
      and "\<not> (is_file w (meanPath f0) \<or> is_file w (variancePath f0)
               \<or> is_file w (entropyPath f0))"
  shows "batch_step c a w filepath =
           (if length outputs < 2
            then (Inl IndexError, nib_save (outputs ! 0) (path_str (meanPath f0)) w)
            else (Inr (filepath, dice, dicePath f0),
                  nib_save (outputs ! 1) (path_str (entropyPath f0))
                    (nib_save (outputs ! 0) (path_str (meanPath f0)) w)))"
  unfolding batch_step_validated [OF assms(3,4)] using assms(1,2,5)
  by (auto simp: Let_def save_secondary_def tuple_getitem_def)

theorem fallthrough_branch_indexes_second_output_witness:
  "\<not> returnArrayFromImages (demo_args False False 1)
   \<and> \<not> (n_samples (demo_args False False 1) > 1 \<and> returnVariance (demo_args False False 1))
   \<and> validate_from_filepath (demo_collab 0) (demo_args False False 1) demo_world (PyStr ''ab'')
       = Inr ([[0, 1, 1]], [1, 0])
   \<and> getitem (PyStr ''ab'') 0 = Inr ''a''
   \<and> \<not> (is_file demo_world (meanPath ''a'') \<or> is_file demo_world (variancePath ''a'')
          \<or> is_file demo_world (entropyPath ''a''))
   \<and> batch_step (demo_collab 0) (demo_args False False 1) demo_world (PyStr ''ab'')
       = (Inl IndexError, nib_save [0, 1, 1] ''a_mean.'' demo_world)"
proof -
  have h1: "\<not> returnArrayFromImages (demo_args False False 1)"
    by (simp add: demo_args_def)
  have h2: "\<not> (n_samples (demo_args False False 1) > 1
              \<and> returnVariance (demo_args False False 1))"
    by (simp add: demo_args_def)
  have h3: "validate_from_filepath (demo_collab 0) (demo_args False False 1) demo_world
              (PyStr ''ab'') = Inr ([[0, 1, 1]], [1, 0])"
    using demo_validate_ab [of 0 False False 1] by simp
  have h4: "getitem (PyStr ''ab'') 0 = Inr ''a''" by simp
  have h5: "\<not> (is_file demo_world (meanPath ''a'') \<or> is_file demo_world (variancePath ''a'')
          \<or> is_file demo_world (entropyPath ''a''))"
    by (simp add: is_file_def demo_paths_a demo_world_def)
  from fallthrough_branch_indexes_second_output [OF h1 h2 h3 h4 h5]
  have "batch_step (demo_collab 0) (demo_args False False 1) demo_world (PyStr ''ab'')
       = (Inl IndexError, nib_save [0, 1, 1] ''a_mean.'' demo_world)"
    by (simp add: demo_paths_a)
  with h1 h2 h3 h4 h5 show ?thesis by blast
qed

text \<open>
  C5.  The conflict check is made in every iteration, on the paths derived once the
  single-volume validator has returned.  If one of the mean, variance and entropy paths
  is a file then, the iteration raises the "already exists" exception and leaves the file
  system as it found it.  The batch stops there: what the iterations before it wrote
  stays, and the iterations after it do not run.
\<close>

theorem existing_target_aborts_before_writing:
  assumes "batch_loop c a w before None = (Inr vars, w1)"
      and "validate_from_filepath c a w1 filepath = Inr (outputs, dice)"
      and "getitem filepath 0 = Inr f0"
      and "is_file w1 (meanPath f0) \<or> is_file w1 (variancePath f0)
             \<or> is_file w1 (entropyPath f0)"
  shows "batch_step c a w1 filepath = (Inl (Exception (exists_message f0)), w1)
         \<and> validate_from_filepaths c a w (before @ filepath # rest)
             = (Inl (Exception (exists_message f0)), w1)"
proof -
  from assms(4) have step:
    "batch_step c a w1 filepath = (Inl (Exception (exists_message f0)), w1)"
    unfolding batch_step_validated [OF assms(2,3)] by simp
  with assms(1) have
    "batch_loop c a w (before @ filepath # rest) None
       = (Inl (Exception (exists_message f0)), w1)"
    by (simp add: batch_loop_append)
  then have "validate_from_filepaths c a w (before @ filepath # rest)
             = (Inl (Exception (exists_message f0)), w1)"
    by (simp add: validate_from_filepaths_def)
  with step show ?thesis by simp
qed

theorem existing_target_aborts_before_writing_witness:
  "batch_loop (demo_collab 1) (demo_args False False 1) demo_world [PyStr ''ab''] None
     = (Inr (Some (PyStr ''ab'', [1, 0], dicePath ''a'')),
        nib_save [0, 1, 1] ''a_entropy.'' (nib_save [0, 1, 1] ''a_mean.'' demo_world))
   \<and> validate_from_filepath (demo_collab 1) (demo_args False False 1)
        (nib_save [0, 1, 1] ''a_entropy.'' (nib_save [0, 1, 1] ''a_mean.'' demo_world))
        (PyStr ''ab'') = Inr ([[0, 1, 1], [0, 1, 1]], [1, 0])
   \<and> getitem (PyStr ''ab'') 0 = Inr ''a''
   \<and> is_file (nib_save [0, 1, 1] ''a_entropy.'' (nib_save [0, 1, 1] ''a_mean.'' demo_world))
        (meanPath ''a'')
   \<and> validate_from_filepaths (demo_collab 1) (demo_args False False 1) demo_world
        [PyStr ''ab'', PyStr ''ab'', PyStr ''cd'']
       = (Inl (Exception ''a_mean. or a_variance. or a_entropy. already exists.''),
          nib_save [0, 1, 1] ''a_entropy.'' (nib_save [0, 1, 1] ''a_mean.'' demo_world))
   \<and> trace (nib_save [0, 1, 1] ''a_entropy.'' (nib_save [0, 1, 1] ''a_mean.'' demo_world))
       = [NibSave ''a_mean.'' [0, 1, 1], NibSave ''a_entropy.'' [0, 1, 1]]"
proof -
  define w1 where
    "w1 = nib_save [0, 1, 1] ''a_entropy.'' (nib_save [0, 1, 1] ''a_mean.'' demo_world)"
  have h1: "batch_loop (demo_collab 1) (demo_args False False 1) demo_world [PyStr ''ab''] None
     = (Inr (Some (PyStr ''ab'', [1, 0], dicePath ''a'')), w1)"
    by (simp add: demo_step_ab w1_def del: One_nat_def)
  have h2: "validate_from_filepath (demo_collab 1) (demo_args False False 1) w1 (PyStr ''ab'')
     = Inr ([[0, 1, 1], [0, 1, 1]], [1, 0])"
    using demo_validate_ab_in [of w1 1 False False 1]
    by (simp add: w1_def nib_save_def demo_world_def)
  have h3: "getitem (PyStr ''ab'') 0 = Inr ''a''" by simp
  have h4: "is_file w1 (meanPath ''a'')"
    by (simp add: is_file_def demo_paths_a w1_def nib_save_def)
  then have h4': "is_file w1 (meanPath ''a'') \<or> is_file w1 (variancePath ''a'')
             \<or> is_file w1 (entropyPath ''a'')"
    by simp
  from existing_target_aborts_before_writing [OF h1 h2 h3 h4', of "[PyStr ''cd'']"]
  have run: "validate_from_filepaths (demo_collab 1) (demo_args False False 1) demo_world
        [PyStr ''ab'', PyStr ''ab'', PyStr ''cd'']
       = (Inl (Exception ''a_mean. or a_variance. or a_entropy. already exists.''), w1)"
    by (simp add: exists_message_def demo_paths_a)
  have tr: "trace w1 = [NibSave ''a_mean.'' [0, 1, 1], NibSave ''a_entropy.'' [0, 1, 1]]"
    by (simp add: w1_def nib_save_def demo_world_def)
  from h1 h2 h3 h4 run tr show ?thesis unfolding w1_def by blast
qed

text \<open>
  C7.  In a batch run with \<open>n_samples = 1\<close>, whatever \<open>returnVariance\<close> is and however
  the run ends, every \<open>nib.save\<close> goes to the mean path or the entropy path of the
  iteration's input, and that path is not the iteration's variance path.
\<close>

theorem single_sample_never_writes_variance:
  assumes "n_samples a = 1"
      and "validate_from_filepaths c a w filepaths = (r, w')"
  shows "\<exists>evs. trace w' = trace w @ evs
           \<and> (\<forall>p v. NibSave p v \<in> set evs \<longrightarrow>
                 (\<exists>filepath \<in> set filepaths. \<exists>f0. getitem filepath 0 = Inr f0
                    \<and> (p = path_str (meanPath f0) \<or> p = path_str (entropyPath f0))
                    \<and> p \<noteq> path_str (variancePath f0)))"
proof -
  obtain r1 w1 where loop: "batch_loop c a w filepaths None = (r1, w1)"
    by (cases "batch_loop c a w filepaths None")
  from batch_loop_events [OF loop] assms(1) obtain evs1 where
    e1: "trace w1 = trace w @ evs1" and
    each: "\<forall>e \<in> set evs1. \<exists>filepath \<in> set filepaths. \<exists>f0 v. getitem filepath 0 = Inr f0 \<and>
             (e = NibSave (path_str (meanPath f0)) v
              \<or> e = NibSave (path_str (entropyPath f0)) v)"
    by auto
  have "\<exists>evs2. trace w' = trace w1 @ evs2 \<and> (\<forall>p v. NibSave p v \<notin> set evs2)"
  proof (cases r1)
    case (Inl e)
    with loop assms(2) have "w' = w1" by (simp add: validate_from_filepaths_def)
    then show ?thesis by simp
  next
    case (Inr vars)
    with loop assms(2) have "final_actions c vars w1 = (r, w')"
      by (simp add: validate_from_filepaths_def)
    then show ?thesis by (rule final_actions_events)
  qed
  then obtain evs2 where
    e2: "trace w' = trace w1 @ evs2" and no: "\<forall>p v. NibSave p v \<notin> set evs2"
    by blast
  have "\<exists>filepath \<in> set filepaths. \<exists>f0. getitem filepath 0 = Inr f0
          \<and> (p = path_str (meanPath f0) \<or> p = path_str (entropyPath f0))
          \<and> p \<noteq> path_str (variancePath f0)"
    if "NibSave p v \<in> set (evs1 @ evs2)" for p v
  proof -
    from that no have "NibSave p v \<in> set evs1" by simp
    with each obtain filepath f0 where
      "filepath \<in> set filepaths" "getitem filepath 0 = Inr f0"
      "p = path_str (meanPath f0) \<or> p = path_str (entropyPath f0)"
      by blast
    moreover from this(3) have "p \<noteq> path_str (variancePath f0)"
      using variance_path_distinct [of f0] by auto
    ultimately show ?thesis by blast
  qed
  moreover from e1 e2 have "trace w' = trace w @ (evs1 @ evs2)" by simp
  ultimately show ?thesis by blast
qed

theorem single_sample_never_writes_variance_witness:
  "n_samples (demo_args True False 1) = 1
   \<and> fst (validate_from_filepaths (demo_collab 1) (demo_args True False 1) demo_world
        [PyStr ''ab'', PyStr ''cd'']) = Inr ()
   \<and> (\<exists>evs. trace (snd (validate_from_filepaths (demo_collab 1) (demo_args True False 1)
                 demo_world [PyStr ''ab'', PyStr ''cd''])) = trace demo_world @ evs
          \<and> NibSave ''a_variance.'' [0, 1, 1] \<notin> set evs
          \<and> NibSave ''c_variance.'' [1, 1, 1] \<notin> set evs)"
proof -
  let ?run = "validate_from_filepaths (demo_collab 1) (demo_args True False 1) demo_world
        [PyStr ''ab'', PyStr ''cd'']"
  have h1: "n_samples (demo_args True False 1) = 1" by (simp add: demo_args_def)
  have h2: "?run = (fst ?run, snd ?run)" by simp
  from single_sample_never_writes_variance [OF h1 h2] obtain evs where
    tr: "trace (snd ?run) = trace demo_world @ evs" and
    each: "\<forall>p v. NibSave p v \<in> set evs \<longrightarrow>
             (\<exists>filepath \<in> set [PyStr ''ab'', PyStr ''cd'']. \<exists>f0. getitem filepath 0 = Inr f0
                \<and> (p = path_str (meanPath f0) \<or> p = path_str (entropyPath f0))
                \<and> p \<noteq> path_str (variancePath f0))"
    by blast
  have a: "NibSave ''a_variance.'' [0, 1, 1] \<notin> set evs"
  proof
    assume "NibSave ''a_variance.'' [0, 1, 1] \<in> set evs"
    with each have "\<exists>filepath \<in> set [PyStr ''ab'', PyStr ''cd'']. \<exists>f0.
        getitem filepath 0 = Inr f0
        \<and> (''a_variance.'' = path_str (meanPath f0) \<or> ''a_variance.'' = path_str (entropyPath f0))"
      by blast
    then show False by (auto simp: demo_paths_a demo_paths_c)
  qed
  have b: "NibSave ''c_variance.'' [1, 1, 1] \<notin> set evs"
  proof
    assume "NibSave ''c_variance.'' [1, 1, 1] \<in> set evs"
    with each have "\<exists>filepath \<in> set [PyStr ''ab'', PyStr ''cd'']. \<exists>f0.
        getitem filepath 0 = Inr f0
        \<and> (''c_variance.'' = path_str (meanPath f0) \<or> ''c_variance.'' = path_str (entropyPath f0))"
      by blast
    then show False by (auto simp: demo_paths_a demo_paths_c)
  qed
  have "fst ?run = Inr ()" by (simp add: demo_batch_ab_cd del: One_nat_def)
  with h1 tr a b show ?thesis by blast
qed

text \<open>
  C4.  When the batch validator returns on a non-empty sequence, the loop itself has only
  saved volumes; after it, once, come the print of \<open>filepath[0]\<close> of the last pair, the
  print of the mean of the Dice vector of the last pair, and the save of that vector to
  the dice path derived from the last pair.  No Dice vector of an earlier iteration is
  saved and nothing is computed over the batch.
\<close>

theorem final_actions_use_last_iteration:
  assumes "validate_from_filepaths c a w filepaths = (Inr u, w')"
      and "filepaths \<noteq> []"
  shows "\<exists>vars w1 w2 outputs dice f0.
           batch_loop c a w (butlast filepaths) None = (Inr vars, w1)
           \<and> validate_from_filepath c a w1 (last filepaths) = Inr (outputs, dice)
           \<and> getitem (last filepaths) 0 = Inr f0
           \<and> batch_loop c a w filepaths None
               = (Inr (Some (last filepaths, dice, dicePath f0)), w2)
           \<and> (\<exists>evs. trace w2 = trace w @ evs \<and> (\<forall>e \<in> set evs. \<exists>p v. e = NibSave p v))
           \<and> trace w' = trace w2 @ [Print f0, PrintDice (np_mean c dice),
                                    NpSave (path_str (dicePath f0)) dice]
           \<and> files w' = (files w2)(path_str (dicePath f0) \<mapsto> NpyArray dice)"
proof -
  obtain r2 w2 where loop: "batch_loop c a w filepaths None = (r2, w2)"
    by (cases "batch_loop c a w filepaths None")
  with assms(1) obtain lv where r2: "r2 = Inr lv" and fin: "final_actions c lv w2 = (Inr u, w')"
    by (cases r2) (simp_all add: validate_from_filepaths_def)
  from assms(2) have split: "filepaths = butlast filepaths @ [last filepaths]" by simp
  obtain r1 w1 where pre: "batch_loop c a w (butlast filepaths) None = (r1, w1)"
    by (cases "batch_loop c a w (butlast filepaths) None")
  from loop r2 pre have "\<exists>vars. r1 = Inr vars"
    using batch_loop_append [of c a w "butlast filepaths" "[last filepaths]" None] split
    by (cases r1) simp_all
  then obtain vars where r1: "r1 = Inr vars" by blast
  from loop r2 pre r1 have "batch_loop c a w1 [last filepaths] vars = (Inr lv, w2)"
    using batch_loop_append [of c a w "butlast filepaths" "[last filepaths]" None] split
    by simp
  then obtain vars' where step: "batch_step c a w1 (last filepaths) = (Inr vars', w2)"
    and lv: "lv = Some vars'"
    by (auto split: prod.splits sum.splits)
  from batch_step_Inr [OF step] obtain outputs dice f0 where
    v: "validate_from_filepath c a w1 (last filepaths) = Inr (outputs, dice)" and
    g: "getitem (last filepaths) 0 = Inr f0" and
    vars': "vars' = (last filepaths, dice, dicePath f0)"
    by blast
  from fin lv vars' g have w': "w' = np_save (path_str (dicePath f0)) dice
      (print_dice (np_mean c dice) (print f0 w2))"
    by (simp add: final_actions_def Let_def)
  have tr: "trace w' = trace w2 @ [Print f0, PrintDice (np_mean c dice),
                                    NpSave (path_str (dicePath f0)) dice]"
    unfolding w' np_save_dicePath by (simp add: print_def print_dice_def)
  have fs: "files w' = (files w2)(path_str (dicePath f0) \<mapsto> NpyArray dice)"
    unfolding w' np_save_dicePath by (simp add: print_def print_dice_def)
  from batch_loop_events [OF loop] have
    ev: "\<exists>evs. trace w2 = trace w @ evs \<and> (\<forall>e \<in> set evs. \<exists>p v. e = NibSave p v)"
    by blast
  from pre r1 v g loop r2 lv vars' ev tr fs show ?thesis by blast
qed

theorem final_actions_use_last_iteration_witness:
  "validate_from_filepaths (demo_collab 1) (demo_args False False 1) demo_world
       [PyStr ''ab'', PyStr ''cd'']
     = (Inr (),
        np_save ''c_dice.npy'' [1, 1] (print_dice 1 (print ''c''
          (nib_save [1, 1, 1] ''c_entropy.'' (nib_save [1, 1, 1] ''c_mean.''
            (nib_save [0, 1, 1] ''a_entropy.'' (nib_save [0, 1, 1] ''a_mean.'' demo_world)))))))
   \<and> [PyStr ''ab'', PyStr ''cd''] \<noteq> []
   \<and> (\<exists>w2 :: int list world. trace (np_save ''c_dice.npy'' [1, 1] (print_dice 1 (print ''c''
          (nib_save [1, 1, 1] ''c_entropy.'' (nib_save [1, 1, 1] ''c_mean.''
            (nib_save [0, 1, 1] ''a_entropy.'' (nib_save [0, 1, 1] ''a_mean.'' demo_world)))))))
         = trace w2 @ [Print ''c'', PrintDice 1, NpSave ''c_dice.npy'' [1, 1]])"
proof -
  let ?w' = "np_save ''c_dice.npy'' [1, 1] (print_dice 1 (print ''c''
          (nib_save [1, 1, 1] ''c_entropy.'' (nib_save [1, 1, 1] ''c_mean.''
            (nib_save [0, 1, 1] ''a_entropy.'' (nib_save [0, 1, 1] ''a_mean.'' demo_world))))))"
  note h1 = demo_batch_ab_cd [of False False]
  have h2: "[PyStr ''ab'', PyStr ''cd''] \<noteq> []" by simp
  from final_actions_use_last_iteration [OF h1 h2] obtain vars w1 w2 outputs dice f0 where
    pre: "batch_loop (demo_collab 1) (demo_args False False 1) demo_world
            (butlast [PyStr ''ab'', PyStr ''cd'']) None = (Inr vars, w1)" and
    v: "validate_from_filepath (demo_collab 1) (demo_args False False 1) w1
          (last [PyStr ''ab'', PyStr ''cd'']) = Inr (outputs, dice)" and
    g: "getitem (last [PyStr ''ab'', PyStr ''cd'']) 0 = Inr f0" and
    tr: "trace ?w' = trace (w2 :: int list world)
           @ [Print f0, PrintDice (np_mean (demo_collab 1) dice),
                                    NpSave (path_str (dicePath f0)) dice]"
    by blast
  from g have f0: "f0 = ''c''" by simp
  from pre have "w1 = nib_save [0, 1, 1] ''a_entropy.'' (nib_save [0, 1, 1] ''a_mean.'' demo_world)"
    by (simp add: demo_step_ab del: One_nat_def)
  with v have "dice = [1, 1]"
    using demo_validate_cd_in [of w1 1 False False 1]
    by (simp add: nib_save_def demo_world_def)
  with tr f0 have "trace ?w' = trace w2 @ [Print ''c'', PrintDice 1, NpSave ''c_dice.npy'' [1, 1]]"
    by (simp add: demo_np_mean demo_paths_c)
  with h1 h2 show ?thesis by blast
qed

end
